theory Spec2Isabelle
  imports Complex_Main "HOL-Library.Word"
begin

unbundle bit_operations_syntax

section \<open>Holotree library (htfs/library.go)\<close>

text \<open>
  A shallow embedding of \<^verbatim>\<open>htfs/library.go\<close>. Go's \<^verbatim>\<open>uint64\<close> is \<open>64 word\<close>
  (arithmetic wraps), \<^verbatim>\<open>[]byte\<close> is a list of bytes, a Go \<^verbatim>\<open>map\<close> is a
  partial function. A function that can fail returns \<open>error + 'a\<close>; an error raised
  through \<^verbatim>\<open>fail.On\<close> carries the format string of its message, a Go run-time
  panic (slice bounds, integer division by zero, \<^verbatim>\<open>panic(err)\<close>) carries the panic's name.
\<close>

type_synonym bytes = "8 word list"

datatype error = Failure string | Panic string

subsection \<open>The \<^verbatim>\<open>stats\<close> counters\<close>

text \<open>
  \<^verbatim>\<open>type stats struct { sync.Mutex; total, dirty, links, duplicate uint64 }\<close>.
  Every method holds the mutex for its whole body, so each one is an atomic step on the
  four counters. The field \<^verbatim>\<open>total\<close> is written \<open>total'\<close> here.
\<close>

record stats =
  total' :: "64 word"
  dirty :: "64 word"
  links :: "64 word"
  duplicate :: "64 word"

definition new_stats :: stats where
  "new_stats = \<lparr>total' = 0, dirty = 0, links = 0, duplicate = 0\<rparr>"

text \<open>
  \<^verbatim>\<open>dirtyness := (1000 * it.dirty) / it.total; return float64(dirtyness) / 10.0\<close>.
  The product and the quotient are \<^verbatim>\<open>uint64\<close> operations: the product wraps modulo
  \<open>2 ^ 64\<close>, the division truncates and panics when the divisor is zero (\<open>None\<close>).
  The result is the decimal \<open>dirtyness / 10\<close>, which the \<^verbatim>\<open>float64\<close> returned
  by the code approximates to the nearest representable number.
\<close>

definition Dirtyness :: "stats \<Rightarrow> real option" where
  "Dirtyness it =
     (if total' it = 0 then None
      else (let dirtyness = (1000 * dirty it) div total' it
            in Some (real (unat dirtyness) / 10)))"

definition Duplicate :: "stats \<Rightarrow> stats" where
  "Duplicate it = it\<lparr>total' := total' it + 1, duplicate := duplicate it + 1\<rparr>"

definition Link :: "stats \<Rightarrow> stats" where
  "Link it = it\<lparr>total' := total' it + 1, links := links it + 1\<rparr>"

definition Dirty :: "bool \<Rightarrow> stats \<Rightarrow> stats" where
  "Dirty d it =
     (let it1 = it\<lparr>total' := total' it + 1\<rparr>
      in if d then it1\<lparr>dirty := dirty it1 + 1\<rparr> else it1)"

text \<open>The counting operations, as data, and a run of them from a fresh record.\<close>

datatype counting = CDuplicate | CLink | CDirty bool

fun count_op :: "counting \<Rightarrow> stats \<Rightarrow> stats" where
  "count_op CDuplicate it = Duplicate it"
| "count_op CLink it = Link it"
| "count_op (CDirty d) it = Dirty d it"

definition count_all :: "counting list \<Rightarrow> stats \<Rightarrow> stats" where
  "count_all ops it = fold count_op ops it"



subsection \<open>Paths and the configuration\<close>

text \<open>
  \<^verbatim>\<open>filepath.Join\<close> drops empty elements, puts a separator between the others and
  cleans the result. The elements joined in this file are directory locations, hex
  digests, catalog names and labels: clean path segments, on which cleaning changes
  nothing, so \<open>Join\<close> is the concatenation with separators.
\<close>

fun join_sep :: "string list \<Rightarrow> string" where
  "join_sep [] = []"
| "join_sep [e] = e"
| "join_sep (e # es) = e @ ''/'' @ join_sep es"

definition Join :: "string list \<Rightarrow> string" where
  "Join elems = join_sep (filter (\<lambda>e. e \<noteq> []) elems)"

text \<open>
  \<^verbatim>\<open>filepath.Rel(basepath, targpath)\<close> for a target at or below the base, the only
  use this file makes of it. (For other targets Go answers with a path through
  \<^verbatim>\<open>..\<close> or an error; both are the error value here.)
\<close>

definition Rel :: "string \<Rightarrow> string \<Rightarrow> error + string" where
  "Rel basepath targpath =
     (if targpath = basepath then Inr ''.''
      else if basepath = [] then Inr targpath
      else if take (length basepath + 1) targpath = basepath @ ''/''
      then Inr (drop (length basepath + 1) targpath)
      else Inl (Failure ''Rel: cannot make target relative to base''))"

text \<open>
  The values and functions of package \<^verbatim>\<open>common\<close> this file reads; they are
  parameters of the model.
\<close>

record config =
  BlueprintHash :: "bytes \<Rightarrow> string"
  Platform :: string
  HololibLocation :: string
  HolotreeLocation :: string
  ProductTemp :: string
  UserHomeIdentity :: string
  Sipit :: "bytes \<Rightarrow> 64 word"
  Textual :: "64 word \<Rightarrow> nat \<Rightarrow> string"
  SharedHolotree :: bool

text \<open>
  Modelled from the spec: \<^verbatim>\<open>common.HololibLibraryLocation\<close> is not in the sources;
  the objects are on disk under the hololib root as
  \<^verbatim>\<open>library/<aa>/<bb>/<cc>/<digest>\<close>.
\<close>

definition HololibLibraryLocation :: "config \<Rightarrow> string" where
  "HololibLibraryLocation cfg = Join [HololibLocation cfg, ''library'']"

text \<open>
  Modelled from the spec: \<^verbatim>\<open>common.HololibCatalogLocation\<close> is not in the sources;
  the catalogs are on disk under the hololib root as \<^verbatim>\<open>catalog/<name>\<close>.
\<close>

definition HololibCatalogLocation :: "config \<Rightarrow> string" where
  "HololibCatalogLocation cfg = Join [HololibLocation cfg, ''catalog'']"

subsection \<open>Catalogs\<close>

text \<open>
  Modelled from the spec: the type \<^verbatim>\<open>File\<close> is not in the sources. A file node has
  a name, a content digest, mode bits and a size.
\<close>

datatype File = File (FileName: string) (Digest: string) (Mode: nat) (Size: nat)

text \<open>
  Modelled from the spec: the type \<^verbatim>\<open>Dir\<close> is not in the sources. A directory node
  has a name, its file nodes and its child directories.
\<close>

datatype Dir = Dir (DirName: string) (Files: "File list") (Dirs: "Dir list")

text \<open>
  Modelled from the spec: the type \<^verbatim>\<open>Root\<close> is not in the sources. A root has a
  path, the blueprint key, the platform, the controller and space labels and the root
  directory.
\<close>

record Root =
  Path :: string
  Blueprint :: string
  RootPlatform :: string
  Controller :: string
  Space :: string
  Tree :: Dir

text \<open>
  Modelled from the spec: the traversals of a catalog are not in the sources; they are
  depth-first. These are the digests a directory tree refers to, in that order.
\<close>

fun dir_refs :: "Dir \<Rightarrow> string list" where
  "dir_refs (Dir n fs ds) = map Digest fs @ concat (map dir_refs ds)"

definition refs :: "Root \<Rightarrow> string list" where
  "refs fs = dir_refs (Tree fs)"

text \<open>
  The catalog files on disk: which paths are regular files, and what
  \<^verbatim>\<open>LoadFrom\<close> reads from a path (\<open>None\<close> when the file is missing or does not
  deserialize). Catalogs and the meta-catalogs of target directories are such files. Both
  fields are parameters: nothing relates them.
\<close>

record disk =
  IsFile :: "string \<Rightarrow> bool"
  catalogs :: "string \<rightharpoonup> Root"

definition LoadFrom :: "disk \<Rightarrow> string \<Rightarrow> Root option" where
  "LoadFrom dk filename = catalogs dk filename"

text \<open>
  Modelled from the spec: \<^verbatim>\<open>SaveAs\<close> is not in the sources. A successful
  \<^verbatim>\<open>SaveAs(path)\<close> persists the catalog: the path is then a file from which
  \<^verbatim>\<open>LoadFrom\<close> reads the catalog back, and no other file changes.
\<close>

definition saved :: "disk \<Rightarrow> string \<Rightarrow> Root \<Rightarrow> disk" where
  "saved dk filename fs =
     dk\<lparr>IsFile := (IsFile dk)(filename := True), catalogs := (catalogs dk)(filename \<mapsto> fs)\<rparr>"

text \<open>
  The functions of this repository that are called here and are not in the sources, as
  parameters: each gives the outcome of the call (\<open>None\<close> or \<open>False\<close> for an error).
\<close>

record system =
  NewRoot :: "string \<Rightarrow> Root option"
  HolotreeBase :: "Root \<Rightarrow> string"
  CatalogCheck :: "Root \<Rightarrow> bool"
  MkdirAll :: "string \<Rightarrow> bool"
  OsRemove :: "string \<Rightarrow> bool"
  Locker :: "string \<Rightarrow> nat \<Rightarrow> bool \<Rightarrow> bool"
  DigestRecorder :: "Root \<Rightarrow> (string \<rightharpoonup> string)"
  Relocate :: "Root \<Rightarrow> string \<Rightarrow> Root option"
  MakeBranches :: "Root \<Rightarrow> bool"
  RestoreDirectory :: "Root \<Rightarrow> (string \<rightharpoonup> string) \<Rightarrow> stats option"
  SaveAs :: "Root \<Rightarrow> string \<Rightarrow> bool"

text \<open>
  \<^verbatim>\<open>fail.On(err != nil, form, ...)\<close> on an error value: an error becomes the failure
  with the message \<open>form\<close>, a panic stays the panic it is.
\<close>

definition fail_On :: "error \<Rightarrow> string \<Rightarrow> error" where
  "fail_On err form = (case err of Panic p \<Rightarrow> Panic p | Failure m \<Rightarrow> Failure form)"

subsection \<open>The library\<close>

record hololib =
  identity :: "64 word"
  basedir :: string
  queryCache :: "string \<rightharpoonup> bool"

text \<open>
  \<^verbatim>\<open>digest[:2]\<close>, \<^verbatim>\<open>digest[2:4]\<close> and \<^verbatim>\<open>digest[4:6]\<close> panic on a digest shorter
  than six bytes.
\<close>

definition ExactDefaultLocation :: "config \<Rightarrow> string \<Rightarrow> error + string" where
  "ExactDefaultLocation cfg digest =
     (if length digest < 6 then Inl (Panic ''slice bounds out of range'')
      else Inr (Join [HololibLibraryLocation cfg, take 2 digest, take 2 (drop 2 digest),
                      take 2 (drop 4 digest), digest]))"

text \<open>\<^verbatim>\<open>relative, _ := filepath.Rel(...)\<close>: an error of \<open>Rel\<close> leaves the empty string.\<close>

definition RelativeDefaultLocation :: "config \<Rightarrow> string \<Rightarrow> error + string" where
  "RelativeDefaultLocation cfg digest =
     (case ExactDefaultLocation cfg digest of
        Inl e \<Rightarrow> Inl e
      | Inr location \<Rightarrow>
          (case Rel (HololibLocation cfg) location of
             Inl e \<Rightarrow> Inr []
           | Inr relative \<Rightarrow> Inr relative))"

definition ExactLocation :: "config \<Rightarrow> hololib \<Rightarrow> string \<Rightarrow> error + string" where
  "ExactLocation cfg it digest = ExactDefaultLocation cfg digest"

text \<open>\<^verbatim>\<open>fmt.Sprintf("%016x", n)\<close>: sixteen lower-case hex digits.\<close>

definition hexdigit :: "nat \<Rightarrow> char" where
  "hexdigit k = ''0123456789abcdef'' ! (k mod 16)"

definition Sprintf_016x :: "64 word \<Rightarrow> string" where
  "Sprintf_016x n = map (\<lambda>i. hexdigit (unat (drop_bit (4 * i) n AND 15))) (rev [0..<16])"

definition Identity :: "config \<Rightarrow> hololib \<Rightarrow> string" where
  "Identity cfg it =
     (let suffix = Sprintf_016x (identity it)
      in ''h'' @ UserHomeIdentity cfg @ ''_'' @ take 14 suffix @ ''t'')"

text \<open>\<^verbatim>\<open>Stage\<close> creates the stage directory and panics with the error when that fails.\<close>

definition StagePath :: "config \<Rightarrow> hololib \<Rightarrow> string" where
  "StagePath cfg it = Join [HolotreeLocation cfg, Identity cfg it]"

definition Stage :: "config \<Rightarrow> system \<Rightarrow> hololib \<Rightarrow> error + string" where
  "Stage cfg sys it =
     (let stage = StagePath cfg it
      in if MkdirAll sys stage then Inr stage else Inl (Panic ''MkdirAll''))"

definition CatalogName :: "config \<Rightarrow> string \<Rightarrow> string" where
  "CatalogName cfg key = key @ ''v12.'' @ Platform cfg"

definition CatalogPath :: "config \<Rightarrow> string \<Rightarrow> string" where
  "CatalogPath cfg key = Join [HololibCatalogLocation cfg, CatalogName cfg key]"

definition ControllerSpaceName :: "config \<Rightarrow> bytes \<Rightarrow> bytes \<Rightarrow> string" where
  "ControllerSpaceName cfg client tag =
     (let prefix = Textual cfg (Sipit cfg client) 7;
          suffix = Textual cfg (Sipit cfg tag) 8
      in UserHomeIdentity cfg @ ''_'' @ prefix @ ''_'' @ suffix)"

subsection \<open>Blueprint queries\<close>

text \<open>
  \<^verbatim>\<open>queryBlueprint\<close>: every failure on the way is answered with \<^verbatim>\<open>false\<close>.
  \<^verbatim>\<open>shadow.Treetop(CatalogCheck(it, shadow))\<close> is the parameter \<open>CatalogCheck\<close>.
\<close>

definition queryBlueprint :: "config \<Rightarrow> system \<Rightarrow> disk \<Rightarrow> hololib \<Rightarrow> string \<Rightarrow> bool" where
  "queryBlueprint cfg sys dk it key =
     (let catalog = CatalogPath cfg key
      in if \<not> IsFile dk catalog then False
         else (let tempdir = Join [ProductTemp cfg, key]
               in case NewRoot sys tempdir of
                    None \<Rightarrow> False
                  | Some shadow0 \<Rightarrow>
                      (case LoadFrom dk catalog of
                         None \<Rightarrow> False
                       | Some shadow \<Rightarrow>
                           if \<not> CatalogCheck sys shadow then False
                           else IsFile dk catalog)))"

text \<open>
  \<^verbatim>\<open>HasBlueprint\<close> answers from \<^verbatim>\<open>queryCache\<close> when the key is there, and stores
  the answer of \<^verbatim>\<open>queryBlueprint\<close> when it is not. The library is returned updated.
\<close>

definition HasBlueprint ::
  "config \<Rightarrow> system \<Rightarrow> disk \<Rightarrow> hololib \<Rightarrow> bytes \<Rightarrow> bool \<times> hololib" where
  "HasBlueprint cfg sys dk it blueprint =
     (let key = BlueprintHash cfg blueprint
      in case queryCache it key of
           Some found \<Rightarrow> (found, it)
         | None \<Rightarrow>
             (let found = queryBlueprint cfg sys dk it key
              in (found, it\<lparr>queryCache := (queryCache it)(key \<mapsto> found)\<rparr>)))"

text \<open>
  \<^verbatim>\<open>Remove\<close>: a name that is not a file is skipped with a warning; a failing
  \<^verbatim>\<open>os.Remove\<close> ends the loop with an error. The library itself is not changed.
\<close>

fun Remove :: "config \<Rightarrow> system \<Rightarrow> hololib \<Rightarrow> string list \<Rightarrow> disk \<Rightarrow> error option \<times> disk" where
  "Remove cfg sys it [] dk = (None, dk)"
| "Remove cfg sys it (name # rest) dk =
     (let catalog = Join [HololibCatalogLocation cfg, name]
      in if \<not> IsFile dk catalog then Remove cfg sys it rest dk
         else if \<not> OsRemove sys catalog
         then (Some (Failure ''Could not remove catalog %s [filename: %q]''), dk)
         else Remove cfg sys it rest
                (dk\<lparr>IsFile := (IsFile dk)(catalog := False),
                    catalogs := (catalogs dk)(catalog := None)\<rparr>))"

subsection \<open>Target directories\<close>

definition WarrantyVoidedDir :: "config \<Rightarrow> hololib \<Rightarrow> bytes \<Rightarrow> bytes \<Rightarrow> string" where
  "WarrantyVoidedDir cfg it controller space =
     Join [HolotreeLocation cfg, ControllerSpaceName cfg controller space]"

definition TargetDir ::
  "config \<Rightarrow> system \<Rightarrow> disk \<Rightarrow> hololib \<Rightarrow> bytes \<Rightarrow> bytes \<Rightarrow> bytes \<Rightarrow> error + string" where
  "TargetDir cfg sys dk it blueprint controller space =
     (let key = BlueprintHash cfg blueprint;
          catalog = CatalogPath cfg key
      in case Stage cfg sys it of
           Inl e \<Rightarrow> Inl e
         | Inr stage \<Rightarrow>
             (case NewRoot sys stage of
                None \<Rightarrow> Inl (Failure ''Failed to create stage -> %v'')
              | Some fs0 \<Rightarrow>
                  (let name = ControllerSpaceName cfg controller space
                   in case LoadFrom dk catalog of
                        None \<Rightarrow> Inr (Join [HolotreeLocation cfg, name])
                      | Some fs \<Rightarrow> Inr (Join [HolotreeBase sys fs, name]))))"

subsection \<open>Export\<close>

text \<open>
  \<^verbatim>\<open>zipseen\<close>: the zip writer and the set of archive-relative paths already seen.
  The writer is the list of entries created so far, each with its name in the archive
  and the file copied into it. A Go map read at a missing key gives \<^verbatim>\<open>false\<close>.
\<close>

record zipseen =
  Writer :: "(string \<times> string) list"
  seen :: "string \<rightharpoonup> bool"

definition seen_at :: "zipseen \<Rightarrow> string \<Rightarrow> bool" where
  "seen_at it relativepath = (case seen it relativepath of None \<Rightarrow> False | Some b \<Rightarrow> b)"

text \<open>The outcomes of opening a source, creating a zip entry and copying, as parameters.\<close>

record zipio =
  PathlibCreate :: "string \<Rightarrow> bool"
  OsOpen :: "string \<Rightarrow> bool"
  ZipCreate :: "string \<Rightarrow> bool"
  IoCopy :: "string \<Rightarrow> string \<Rightarrow> bool"

definition Ignore :: "string \<Rightarrow> zipseen \<Rightarrow> zipseen" where
  "Ignore relativepath it = it\<lparr>seen := (seen it)(relativepath \<mapsto> True)\<rparr>"

definition Add :: "zipio \<Rightarrow> string \<Rightarrow> string \<Rightarrow> zipseen \<Rightarrow> error option \<times> zipseen" where
  "Add io fullpath relativepath it =
     (if seen_at it relativepath then (None, it)
      else (let it1 = it\<lparr>seen := (seen it)(relativepath \<mapsto> True)\<rparr>
            in if \<not> OsOpen io fullpath
               then (Some (Failure ''Could not open: %q -> %v''), it1)
               else if \<not> ZipCreate io relativepath
               then (Some (Failure ''Could not create: %q -> %v''), it1)
               else (let it2 = it1\<lparr>Writer := Writer it1 @ [(relativepath, fullpath)]\<rparr>
                     in if \<not> IoCopy io fullpath relativepath
                        then (Some (Failure ''Copy failure: %q -> %q -> %v''), it2)
                        else (None, it2))))"

text \<open>
  Modelled from the spec: \<^verbatim>\<open>ZipIgnore\<close> and \<^verbatim>\<open>Treetop\<close> are not in the sources.
  \<^verbatim>\<open>Treetop(ZipIgnore)\<close> marks every referenced object's archive-relative path as
  seen without writing. It takes the catalog's digests in traversal order.
\<close>

fun ZipIgnore :: "config \<Rightarrow> hololib \<Rightarrow> string list \<Rightarrow> zipseen \<Rightarrow> error option \<times> zipseen" where
  "ZipIgnore cfg it [] sink = (None, sink)"
| "ZipIgnore cfg it (digest # rest) sink =
     (case RelativeDefaultLocation cfg digest of
        Inl e \<Rightarrow> (Some e, sink)
      | Inr relative \<Rightarrow> ZipIgnore cfg it rest (Ignore relative sink))"

text \<open>
  Modelled from the spec: \<^verbatim>\<open>ZipRoot\<close> and \<^verbatim>\<open>Treetop\<close> are not in the sources.
  \<^verbatim>\<open>Treetop(ZipRoot)\<close> writes each referenced object under its archive-relative path
  (library-relative to the hololib root), skipping those already seen; the first error
  ends the traversal. It takes the catalog's digests in traversal order.
\<close>

fun ZipRoot ::
  "config \<Rightarrow> zipio \<Rightarrow> hololib \<Rightarrow> string list \<Rightarrow> zipseen \<Rightarrow> error option \<times> zipseen" where
  "ZipRoot cfg io it [] sink = (None, sink)"
| "ZipRoot cfg io it (digest # rest) sink =
     (case ExactLocation cfg it digest of
        Inl e \<Rightarrow> (Some e, sink)
      | Inr location \<Rightarrow>
          (case RelativeDefaultLocation cfg digest of
             Inl e \<Rightarrow> (Some e, sink)
           | Inr relative \<Rightarrow>
               (case Add io location relative sink of
                  (Some e, sink1) \<Rightarrow> (Some e, sink1)
                | (None, sink1) \<Rightarrow> ZipRoot cfg io it rest sink1)))"

text \<open>The loop of \<^verbatim>\<open>Export\<close> over the already-known catalogs.\<close>

fun export_known ::
  "config \<Rightarrow> system \<Rightarrow> disk \<Rightarrow> hololib \<Rightarrow> string list \<Rightarrow> zipseen \<Rightarrow> error option \<times> zipseen" where
  "export_known cfg sys dk it [] zipper = (None, zipper)"
| "export_known cfg sys dk it (name # rest) zipper =
     (let catalog = Join [HololibCatalogLocation cfg, name]
      in case NewRoot sys ''.'' of
           None \<Rightarrow> (Some (Failure ''Could not create root location -> %v.''), zipper)
         | Some fs0 \<Rightarrow>
             (case LoadFrom dk catalog of
                None \<Rightarrow> export_known cfg sys dk it rest zipper
              | Some fs \<Rightarrow>
                  (case ZipIgnore cfg it (refs fs) zipper of
                     (Some e, zipper1) \<Rightarrow>
                       (Some (fail_On e ''Could not ignore catalog %s -> %v.''), zipper1)
                   | (None, zipper1) \<Rightarrow> export_known cfg sys dk it rest zipper1)))"

text \<open>
  The loop over the catalogs to export; the state is the flag \<^verbatim>\<open>exported\<close> and
  the zipper.
\<close>

fun export_catalogs ::
  "config \<Rightarrow> system \<Rightarrow> zipio \<Rightarrow> disk \<Rightarrow> hololib \<Rightarrow> string list \<Rightarrow> bool \<Rightarrow> zipseen
   \<Rightarrow> error option \<times> bool \<times> zipseen" where
  "export_catalogs cfg sys io dk it [] exported zipper = (None, exported, zipper)"
| "export_catalogs cfg sys io dk it (name # rest) exported zipper =
     (let catalog = Join [HololibCatalogLocation cfg, name]
      in case NewRoot sys ''.'' of
           None \<Rightarrow> (Some (Failure ''Could not create root location -> %v.''), exported, zipper)
         | Some fs0 \<Rightarrow>
             (case LoadFrom dk catalog of
                None \<Rightarrow>
                  (Some (Failure ''Could not load catalog from %s -> %v.''), exported, zipper)
              | Some fs \<Rightarrow>
                  (case ZipRoot cfg io it (refs fs) zipper of
                     (Some e, zipper1) \<Rightarrow>
                       (Some (fail_On e ''Could not zip catalog %s -> %v.''), exported, zipper1)
                   | (None, zipper1) \<Rightarrow>
                       (case Rel (HololibLocation cfg) catalog of
                          Inl e \<Rightarrow>
                            (Some (Failure ''Could not get relative location for catalog -> %v.''),
                             exported, zipper1)
                        | Inr relative \<Rightarrow>
                            (case Add io catalog relative zipper1 of
                               (Some e, zipper2) \<Rightarrow>
                                 (Some (fail_On e ''Could not add catalog to zip -> %v.''),
                                  exported, zipper2)
                             | (None, zipper2) \<Rightarrow>
                                 export_catalogs cfg sys io dk it rest True zipper2)))))"

text \<open>
  \<^verbatim>\<open>Export\<close> returns its error (\<open>None\<close> for \<^verbatim>\<open>nil\<close>) and the archive as it
  stands when the call ends (\<open>None\<close> when the archive could not be created).
\<close>

definition Export ::
  "config \<Rightarrow> system \<Rightarrow> zipio \<Rightarrow> disk \<Rightarrow> hololib \<Rightarrow> string list \<Rightarrow> string list \<Rightarrow> string
   \<Rightarrow> error option \<times> zipseen option" where
  "Export cfg sys io dk it catalogs' known archive =
     (if \<not> PathlibCreate io archive
      then (Some (Failure ''Could not create archive %q.''), None)
      else (let zipper = \<lparr>Writer = [], seen = Map.empty\<rparr>
            in case export_known cfg sys dk it known zipper of
                 (Some e, zipper1) \<Rightarrow> (Some e, Some zipper1)
               | (None, zipper1) \<Rightarrow>
                   (case export_catalogs cfg sys io dk it catalogs' False zipper1 of
                      (Some e, exported, zipper2) \<Rightarrow> (Some e, Some zipper2)
                    | (None, exported, zipper2) \<Rightarrow>
                        if \<not> exported
                        then (Some (Failure ''None of given catalogs were available for export!''),
                              Some zipper2)
                        else (None, Some zipper2))))"

subsection \<open>Restore\<close>

text \<open>
  The calls \<^verbatim>\<open>RestoreTo\<close> makes that touch the file system or the lock, in the
  order in which it makes them, each with its outcome (\<open>True\<close> for success). The
  messages to the timeline, the journal and the log are left out, except the operating
  mode.
\<close>

datatype event =
    EvMkdirAll string bool
  | EvNewRoot string bool
  | EvLoadFrom string bool
  | EvLocker string nat bool bool
  | EvRelease string
  | EvShadowRoot string bool
  | EvLoadMeta string bool
  | EvMode string
  | EvRelocate string bool
  | EvMakeBranches bool
  | EvRestoreDirectory bool
  | EvDirtyness bool
  | EvSaveAs string bool
  | EvTouchWhen string
  | EvTouchUsedHash string

text \<open>\<^verbatim>\<open>%q\<close> of a string without characters to escape: the string in double quotes.\<close>

definition quoted :: "string \<Rightarrow> string" where
  "quoted s = [CHR 0x22] @ s @ [CHR 0x22]"

text \<open>
  The operating mode and the current state of the target: \<open>shadow\<close> is the
  meta-catalog loaded from the target's meta file, \<open>None\<close> when
  \<^verbatim>\<open>NewRoot(targetdir)\<close> or \<^verbatim>\<open>shadow.LoadFrom(metafile)\<close> failed.
\<close>

definition operating_mode :: "string \<Rightarrow> Root option \<Rightarrow> string" where
  "operating_mode key shadow =
     (case shadow of
        None \<Rightarrow> ''new space for '' @ quoted key
      | Some sh \<Rightarrow>
          if key = Blueprint sh then ''cleaned up space for '' @ quoted key
          else ''coverted space from '' @ quoted (Blueprint sh) @ '' to '' @ quoted key)"

definition load_shadow :: "system \<Rightarrow> disk \<Rightarrow> string \<Rightarrow> string \<Rightarrow> Root option \<times> event list" where
  "load_shadow sys dk targetdir metafile =
     (case NewRoot sys targetdir of
        None \<Rightarrow> (None, [EvShadowRoot targetdir False])
      | Some shadow0 \<Rightarrow>
          (case LoadFrom dk metafile of
             None \<Rightarrow> (None, [EvShadowRoot targetdir True, EvLoadMeta metafile False])
           | Some shadow \<Rightarrow> (Some shadow, [EvShadowRoot targetdir True, EvLoadMeta metafile True])))"

text \<open>
  The body of \<^verbatim>\<open>RestoreTo\<close> from the point where the lock is held up to its return;
  the deferred \<^verbatim>\<open>locker.Release()\<close> follows it on every path. A restore of a catalog
  without files reaches \<^verbatim>\<open>score.Dirtyness()\<close> with \<^verbatim>\<open>total = 0\<close>, which panics.
\<close>

definition restore_locked ::
  "config \<Rightarrow> system \<Rightarrow> disk \<Rightarrow> string \<Rightarrow> string \<Rightarrow> Root \<Rightarrow> string \<Rightarrow> string \<Rightarrow> string \<Rightarrow> string
   \<Rightarrow> (error + string) \<times> disk \<times> event list" where
  "restore_locked cfg sys dk key catalog fs targetdir metafile controller space =
     (let (shadow, ev0) = load_shadow sys dk targetdir metafile;
          currentstate = (case shadow of None \<Rightarrow> Map.empty | Some sh \<Rightarrow> DigestRecorder sys sh);
          mode = operating_mode key shadow;
          ev1 = ev0 @ [EvMode mode]
      in case Relocate sys fs targetdir of
           None \<Rightarrow>
             (Inl (Failure ''Failed to relocate %s -> %v''), dk, ev1 @ [EvRelocate targetdir False])
         | Some fs1 \<Rightarrow>
             (let ev2 = ev1 @ [EvRelocate targetdir True]
              in if \<not> MakeBranches sys fs1
                 then (Inl (Failure ''Failed to make branches -> %v''), dk,
                       ev2 @ [EvMakeBranches False])
                 else (let ev3 = ev2 @ [EvMakeBranches True]
                       in case RestoreDirectory sys fs1 currentstate of
                            None \<Rightarrow>
                              (Inl (Failure ''Failed to restore directories -> %v''), dk,
                               ev3 @ [EvRestoreDirectory False])
                          | Some score \<Rightarrow>
                              (let ev4 = ev3 @ [EvRestoreDirectory True]
                               in case Dirtyness score of
                                    None \<Rightarrow>
                                      (Inl (Panic ''integer divide by zero''), dk,
                                       ev4 @ [EvDirtyness False])
                                  | Some dirtyness \<Rightarrow>
                                      (let ev5 = ev4 @ [EvDirtyness True];
                                           fs2 = fs1\<lparr>Controller := controller, Space := space\<rparr>
                                       in if \<not> SaveAs sys fs2 metafile
                                          then (Inl (Failure ''Failed to save metafile %q -> %v''),
                                                dk, ev5 @ [EvSaveAs metafile False])
                                          else (Inr targetdir, saved dk metafile fs2,
                                                ev5 @ [EvSaveAs metafile True, EvTouchWhen catalog,
                                                       EvTouchUsedHash key]))))))"

text \<open>
  \<^verbatim>\<open>RestoreTo\<close> returns its result, the catalog files on disk when it ends, and the
  calls it made. (The flag \<^verbatim>\<open>partial\<close> only silences two log lines.)
\<close>

definition RestoreTo ::
  "config \<Rightarrow> system \<Rightarrow> disk \<Rightarrow> hololib \<Rightarrow> bytes \<Rightarrow> string \<Rightarrow> string \<Rightarrow> string \<Rightarrow> bool
   \<Rightarrow> (error + string) \<times> disk \<times> event list" where
  "RestoreTo cfg sys dk it blueprint label controller space partial =
     (let key = BlueprintHash cfg blueprint;
          catalog = CatalogPath cfg key
      in case Stage cfg sys it of
           Inl e \<Rightarrow> (Inl e, dk, [EvMkdirAll (StagePath cfg it) False])
         | Inr stage \<Rightarrow>
             (case NewRoot sys stage of
                None \<Rightarrow>
                  (Inl (Failure ''Failed to create stage -> %v''), dk,
                   [EvMkdirAll stage True, EvNewRoot stage False])
              | Some fs0 \<Rightarrow>
                  (case LoadFrom dk catalog of
                     None \<Rightarrow>
                       (Inl (Failure ''Failed to load catalog %s -> %v''), dk,
                        [EvMkdirAll stage True, EvNewRoot stage True, EvLoadFrom catalog False])
                   | Some fs \<Rightarrow>
                       (let pre = [EvMkdirAll stage True, EvNewRoot stage True,
                                   EvLoadFrom catalog True];
                            targetdir = Join [HolotreeBase sys fs, label];
                            metafile = targetdir @ ''.meta'';
                            lockfile = targetdir @ ''.lck''
                        in if \<not> Locker sys lockfile 30000 (SharedHolotree cfg)
                           then (Inl (Failure ''Could not get lock for %s. Quiting.''), dk,
                                 pre @ [EvLocker lockfile 30000 (SharedHolotree cfg) False])
                           else (let (result, dk1, evs) =
                                       restore_locked cfg sys dk key catalog fs targetdir metafile
                                         controller space
                                 in (result, dk1,
                                     pre @ [EvLocker lockfile 30000 (SharedHolotree cfg) True]
                                       @ evs @ [EvRelease lockfile]))))))"

definition Restore ::
  "config \<Rightarrow> system \<Rightarrow> disk \<Rightarrow> hololib \<Rightarrow> bytes \<Rightarrow> bytes \<Rightarrow> bytes
   \<Rightarrow> (error + string) \<times> disk \<times> event list" where
  "Restore cfg sys dk it blueprint client tag =
     RestoreTo cfg sys dk it blueprint (ControllerSpaceName cfg client tag)
       (map (\<lambda>b. char_of (unat b)) client) (map (\<lambda>b. char_of (unat b)) tag) False"


fun is_save :: "event \<Rightarrow> bool" where
  "is_save (EvSaveAs metafile ok) = True"
| "is_save ev = False"


text \<open>A step whose failure ends the restore before the meta file is saved.\<close>

fun failed_step :: "event \<Rightarrow> bool" where
  "failed_step (EvMkdirAll stage ok) = (\<not> ok)"
| "failed_step (EvNewRoot stage ok) = (\<not> ok)"
| "failed_step (EvLoadFrom catalog ok) = (\<not> ok)"
| "failed_step (EvLocker lockfile timeout shared ok) = (\<not> ok)"
| "failed_step (EvRelocate targetdir ok) = (\<not> ok)"
| "failed_step (EvMakeBranches ok) = (\<not> ok)"
| "failed_step (EvRestoreDirectory ok) = (\<not> ok)"
| "failed_step (EvDirtyness ok) = (\<not> ok)"
| "failed_step ev = False"

text \<open>
  The names of the entries of an archive, in the order in which they were written, and
  the digests that the loadable catalogs among a list of catalog names refer to.
\<close>

definition archived :: "zipseen \<Rightarrow> string list" where
  "archived it = map fst (Writer it)"



text \<open>
  The paths a zipper has seen, the paths it has seen without writing them, and the
  invariant of a zipper: no name is written twice, and every written name is seen.
\<close>

definition seen_set :: "zipseen \<Rightarrow> string set" where
  "seen_set it = {p. seen_at it p}"



subsection \<open>A small installation\<close>

text \<open>
  Concrete values on which the definitions are evaluated: a configuration, a system on
  which every call succeeds, and a disk that holds the catalog of blueprint key \<open>12\<close>.
\<close>

definition demo_config :: config where
  "demo_config =
     \<lparr>BlueprintHash = (\<lambda>b. map (\<lambda>x. hexdigit (unat x)) b),
      Platform = ''linux_amd64'',
      HololibLocation = ''/hololib'',
      HolotreeLocation = ''/holotree'',
      ProductTemp = ''/tmp'',
      UserHomeIdentity = ''1234'',
      Sipit = (\<lambda>b. of_nat (length b)),
      Textual = (\<lambda>w n. replicate n (CHR ''s'')),
      SharedHolotree = False\<rparr>"

definition demo_K1 :: Root where
  "demo_K1 =
     \<lparr>Path = ''/holotree/stage'', Blueprint = ''12'', RootPlatform = ''linux_amd64'',
      Controller = [], Space = [],
      Tree = Dir [] [File ''x'' ''0a0b0c01'' 420 5]
               [Dir ''a'' [File ''y'' ''0a0b0c02'' 420 5, File ''z'' ''0a0b0c03'' 420 5] []]\<rparr>"

definition demo_system :: system where
  "demo_system =
     \<lparr>NewRoot = (\<lambda>p. Some \<lparr>Path = p, Blueprint = [], RootPlatform = [], Controller = [],
                            Space = [], Tree = Dir [] [] []\<rparr>),
      HolotreeBase = (\<lambda>r. ''/holotree''),
      CatalogCheck = (\<lambda>r. True),
      MkdirAll = (\<lambda>p. True),
      OsRemove = (\<lambda>p. True),
      Locker = (\<lambda>p n s. True),
      DigestRecorder = (\<lambda>r. Map.empty),
      Relocate = (\<lambda>r p. Some (r\<lparr>Path := p\<rparr>)),
      MakeBranches = (\<lambda>r. True),
      RestoreDirectory = (\<lambda>r cs. Some (count_all (map (\<lambda>d. CDirty True) (refs r)) new_stats)),
      SaveAs = (\<lambda>r p. True)\<rparr>"

definition demo_disk :: disk where
  "demo_disk =
     \<lparr>IsFile = (\<lambda>p. p = ''/hololib/catalog/12v12.linux_amd64''),
      catalogs = [''/hololib/catalog/12v12.linux_amd64'' \<mapsto> demo_K1]\<rparr>"

definition demo_lib :: hololib where
  "demo_lib = \<lparr>identity = 255, basedir = ''/home'', queryCache = Map.empty\<rparr>"

text \<open>The library after a first query of blueprint \<open>[1, 2]\<close>, and the disk after the
  catalog of that blueprint has been removed.\<close>

definition demo_queried_lib :: hololib where
  "demo_queried_lib = snd (HasBlueprint demo_config demo_system demo_disk demo_lib [1, 2])"

definition demo_removed_disk :: disk where
  "demo_removed_disk =
     snd (Remove demo_config demo_system demo_queried_lib [''12v12.linux_amd64''] demo_disk)"

text \<open>
  A second catalog, which shares two objects with the first, a disk that holds both, and
  an archive writer on which every call succeeds.
\<close>

definition demo_K2 :: Root where
  "demo_K2 =
     \<lparr>Path = ''/holotree/stage'', Blueprint = ''34'', RootPlatform = ''linux_amd64'',
      Controller = [], Space = [],
      Tree = Dir [] [File ''y'' ''0a0b0c02'' 420 5]
               [Dir ''b'' [File ''z'' ''0a0b0c03'' 420 5, File ''w'' ''0a0b0c04'' 420 5] []]\<rparr>"

definition demo_export_disk :: disk where
  "demo_export_disk =
     \<lparr>IsFile = (\<lambda>p. p = ''/hololib/catalog/12v12.linux_amd64''
                    \<or> p = ''/hololib/catalog/34v12.linux_amd64''),
      catalogs = [''/hololib/catalog/12v12.linux_amd64'' \<mapsto> demo_K1,
                  ''/hololib/catalog/34v12.linux_amd64'' \<mapsto> demo_K2]\<rparr>"

definition demo_zipio :: zipio where
  "demo_zipio =
     \<lparr>PathlibCreate = (\<lambda>p. True), OsOpen = (\<lambda>p. True), ZipCreate = (\<lambda>p. True),
      IoCopy = (\<lambda>p q. True)\<rparr>"

text \<open>The archive that exporting the second catalog leaves, the first one being known.\<close>

definition demo_archive :: zipseen where
  "demo_archive =
     the (snd (Export demo_config demo_system demo_zipio demo_export_disk demo_lib
                 [''34v12.linux_amd64''] [''12v12.linux_amd64''] ''out.zip''))"

text \<open>The operating modes reported in a run, and the disk after a first restore of
  blueprint \<open>[1, 2]\<close> into the target \<open>lbl\<close>.\<close>

definition modes :: "event list \<Rightarrow> string list" where
  "modes evs = concat (map (\<lambda>ev. case ev of EvMode m \<Rightarrow> [m] | _ \<Rightarrow> []) evs)"

definition demo_restored_disk :: disk where
  "demo_restored_disk =
     fst (snd (RestoreTo demo_config demo_system demo_export_disk demo_lib [1, 2]
                 ''lbl'' ''c'' ''s'' False))"

text \<open>A system that fails to make the branches, and one whose lock is not obtained.\<close>

definition demo_system_no_branches :: system where
  "demo_system_no_branches = demo_system\<lparr>MakeBranches := (\<lambda>r. False)\<rparr>"


section \<open>Properties\<close>

subsection \<open>The counters\<close>














subsection \<open>Evaluating the small installation\<close>

lemma demo_key:
  "BlueprintHash demo_config [1, 2] = ''12''"
  "BlueprintHash demo_config [17, 18] = ''12''"
  "BlueprintHash demo_config [1, 3] = ''13''"
  by (simp_all add: demo_config_def hexdigit_def)

lemma demo_catalog_path:
  "CatalogPath demo_config ''12'' = ''/hololib/catalog/12v12.linux_amd64''"
  "CatalogPath demo_config ''13'' = ''/hololib/catalog/13v12.linux_amd64''"
  by (simp_all add: CatalogPath_def CatalogName_def HololibCatalogLocation_def Join_def
        demo_config_def)

lemma demo_first_query:
  "HasBlueprint demo_config demo_system demo_disk demo_lib [1, 2]
     = (True, demo_lib\<lparr>queryCache := [''12'' \<mapsto> True]\<rparr>)"
  by (simp add: HasBlueprint_def queryBlueprint_def Let_def demo_key demo_catalog_path LoadFrom_def
        demo_lib_def demo_disk_def demo_system_def)

lemma demo_queried_cache: "queryCache demo_queried_lib = [''12'' \<mapsto> True]"
  by (simp add: demo_queried_lib_def demo_first_query)

lemma demo_removed:
  "\<not> IsFile demo_removed_disk ''/hololib/catalog/12v12.linux_amd64''"
  "LoadFrom demo_removed_disk ''/hololib/catalog/12v12.linux_amd64'' = None"
  by (simp_all add: demo_removed_disk_def LoadFrom_def Let_def HololibCatalogLocation_def Join_def
        demo_config_def demo_disk_def demo_system_def)

subsection \<open>Blueprint queries\<close>



text \<open>
  Claim C7, as the code has it: \<open>HasBlueprint\<close> returns a boolean and never an error.
  When \<open>queryCache\<close> has no entry for the blueprint's key, it returns true exactly when
  the catalog file exists, the shadow root is created, the catalog loads and its content
  check passes; a missing file, a failed load and a failed check all give false. (When
  \<open>queryCache\<close> has an entry, it returns that entry: claim C9.)
\<close>

theorem HasBlueprint_cache_miss:
  assumes "queryCache it (BlueprintHash cfg blueprint) = None"
  shows "fst (HasBlueprint cfg sys dk it blueprint) =
           (IsFile dk (CatalogPath cfg (BlueprintHash cfg blueprint))
            \<and> NewRoot sys (Join [ProductTemp cfg, BlueprintHash cfg blueprint]) \<noteq> None
            \<and> (case LoadFrom dk (CatalogPath cfg (BlueprintHash cfg blueprint)) of
                  None \<Rightarrow> False
                | Some shadow \<Rightarrow> CatalogCheck sys shadow))"
  using assms
  by (auto simp: HasBlueprint_def queryBlueprint_def Let_def split: option.splits)

theorem HasBlueprint_cache_miss_witness:
  "queryCache demo_lib (BlueprintHash demo_config [1, 2]) = None
   \<and> fst (HasBlueprint demo_config demo_system demo_disk demo_lib [1, 2]) = True
   \<and> queryCache demo_lib (BlueprintHash demo_config [1, 3]) = None
   \<and> fst (HasBlueprint demo_config demo_system demo_disk demo_lib [1, 3]) = False"
proof -
  have 1: "queryCache demo_lib (BlueprintHash demo_config [1, 2]) = None"
    and 2: "queryCache demo_lib (BlueprintHash demo_config [1, 3]) = None"
    by (simp_all add: demo_lib_def)
  show ?thesis
    using 1 2 HasBlueprint_cache_miss [OF 1, of demo_system demo_disk]
      HasBlueprint_cache_miss [OF 2, of demo_system demo_disk]
    by (simp add: demo_key demo_catalog_path LoadFrom_def)
       (simp add: demo_disk_def demo_system_def)
qed

text \<open>
  Claim C7 as stated fails on a memoized key: the library has answered true for
  blueprint \<open>[1, 2]\<close>, the catalog is then removed, and the next \<open>HasBlueprint\<close> for
  the same blueprint still returns true although the catalog file is missing.
\<close>

theorem HasBlueprint_stale_counterexample:
  "\<not> IsFile demo_removed_disk (CatalogPath demo_config (BlueprintHash demo_config [1, 2]))
   \<and> LoadFrom demo_removed_disk (CatalogPath demo_config (BlueprintHash demo_config [1, 2])) = None
   \<and> fst (HasBlueprint demo_config demo_system demo_removed_disk demo_queried_lib [1, 2]) = True"
  by (simp add: demo_key demo_catalog_path demo_removed HasBlueprint_def Let_def demo_queried_cache)

subsection \<open>Target directories\<close>

text \<open>
  Claim C8: when the blueprint's catalog cannot be loaded, \<open>TargetDir\<close> returns the
  path \<open>HolotreeLocation()/ControllerSpaceName(controller, space)\<close> with no error,
  provided the stage root was created; it returns an error only when creating the stage
  root fails (the stage directory cannot be made, or \<open>NewRoot\<close> fails on it).
\<close>

theorem TargetDir_unloadable:
  assumes "LoadFrom dk (CatalogPath cfg (BlueprintHash cfg blueprint)) = None"
  shows "(MkdirAll sys (StagePath cfg it) \<and> NewRoot sys (StagePath cfg it) \<noteq> None \<longrightarrow>
            TargetDir cfg sys dk it blueprint controller space
              = Inr (Join [HolotreeLocation cfg, ControllerSpaceName cfg controller space]))
         \<and> (\<forall>e. TargetDir cfg sys dk it blueprint controller space = Inl e \<longrightarrow>
               \<not> MkdirAll sys (StagePath cfg it) \<or> NewRoot sys (StagePath cfg it) = None)"
  using assms
  by (auto simp: TargetDir_def Stage_def Let_def split: option.splits sum.splits if_splits)

theorem TargetDir_unloadable_witness:
  "LoadFrom demo_disk (CatalogPath demo_config (BlueprintHash demo_config [1, 3])) = None
   \<and> TargetDir demo_config demo_system demo_disk demo_lib [1, 3] [3] [4]
       = Inr ''/holotree/1234_sssssss_ssssssss''"
proof -
  have 1: "LoadFrom demo_disk (CatalogPath demo_config (BlueprintHash demo_config [1, 3])) = None"
    by (simp add: demo_key demo_catalog_path LoadFrom_def demo_disk_def)
  have 2: "MkdirAll demo_system (StagePath demo_config demo_lib)"
    "NewRoot demo_system (StagePath demo_config demo_lib) \<noteq> None"
    by (simp_all add: demo_system_def)
  have 3: "Join [HolotreeLocation demo_config, ControllerSpaceName demo_config [3] [4]]
            = ''/holotree/1234_sssssss_ssssssss''"
    by (simp add: Join_def ControllerSpaceName_def demo_config_def Let_def eval_nat_numeral)
  show ?thesis
    using 1 2 3 TargetDir_unloadable [OF 1, of demo_system demo_lib "[3]" "[4]"] by simp
qed

subsection \<open>Export\<close>












lemma seen_set_mark [simp]:
  "seen_set (it\<lparr>seen := (seen it)(p \<mapsto> True)\<rparr>) = insert p (seen_set it)"
  by (auto simp: seen_set_def seen_at_def)

lemma seen_set_Writer [simp]: "seen_set (it\<lparr>Writer := w\<rparr>) = seen_set it"
  by (simp add: seen_set_def seen_at_def)

lemma archived_mark [simp]: "archived (it\<lparr>seen := s\<rparr>) = archived it"
  by (simp add: archived_def)

lemma archived_write [simp]: "archived (it\<lparr>Writer := w\<rparr>) = map fst w"
  by (simp add: archived_def)

lemma archived_fold [simp]: "map fst (Writer it) = archived it"
  by (simp add: archived_def)
















lemma demo_archived:
  "archived demo_archive = [''library/0a/0b/0c/0a0b0c04'', ''catalog/34v12.linux_amd64'']"
  unfolding demo_archive_def by code_simp
















subsection \<open>Restore\<close>


lemma restore_locked_save_order:
  "(\<exists>e\<in>set (snd (snd (restore_locked cfg sys dk key catalog fs targetdir metafile controller space))). is_save e) \<longrightarrow>
     EvMakeBranches True \<in> set (takeWhile (\<lambda>e. \<not> is_save e)
        (snd (snd (restore_locked cfg sys dk key catalog fs targetdir metafile controller space))))
   \<and> EvRestoreDirectory True \<in> set (takeWhile (\<lambda>e. \<not> is_save e)
        (snd (snd (restore_locked cfg sys dk key catalog fs targetdir metafile controller space))))
   \<and> (\<forall>e\<in>set (takeWhile (\<lambda>e. \<not> is_save e)
        (snd (snd (restore_locked cfg sys dk key catalog fs targetdir metafile controller space)))).
          \<not> failed_step e)"
  by (simp add: restore_locked_def load_shadow_def Let_def split: option.split)

lemma restore_locked_failed:
  "(\<exists>e\<in>set (snd (snd (restore_locked cfg sys dk key catalog fs targetdir metafile controller space))). failed_step e) \<longrightarrow>
     isl (fst (restore_locked cfg sys dk key catalog fs targetdir metafile controller space))
   \<and> (\<forall>e\<in>set (snd (snd (restore_locked cfg sys dk key catalog fs targetdir metafile controller space))). \<not> is_save e)"
  by (simp add: restore_locked_def load_shadow_def Let_def split: option.split)

lemma restore_locked_error_disk:
  "isl (fst (restore_locked cfg sys dk key catalog fs targetdir metafile controller space)) \<longrightarrow>
     fst (snd (restore_locked cfg sys dk key catalog fs targetdir metafile controller space)) = dk"
  by (simp add: restore_locked_def load_shadow_def Let_def split: option.split)

lemma restore_locked_saves_meta:
  "\<forall>mf ok. EvSaveAs mf ok \<in> set (snd (snd (restore_locked cfg sys dk key catalog fs targetdir metafile controller space)))
      \<longrightarrow> mf = metafile"
  by (simp add: restore_locked_def load_shadow_def Let_def split: option.split)



lemma RestoreTo_shape:
  assumes "RestoreTo cfg sys dk it blueprint label controller space partial = (result, dk', tr)"
  shows "(isl result \<and> dk' = dk \<and>
            (tr = [EvMkdirAll (StagePath cfg it) False]
             \<or> tr = [EvMkdirAll (StagePath cfg it) True, EvNewRoot (StagePath cfg it) False]
             \<or> tr = [EvMkdirAll (StagePath cfg it) True, EvNewRoot (StagePath cfg it) True,
                      EvLoadFrom (CatalogPath cfg (BlueprintHash cfg blueprint)) False]))
       \<or> (\<exists>fs. LoadFrom dk (CatalogPath cfg (BlueprintHash cfg blueprint)) = Some fs
             \<and> \<not> Locker sys (Join [HolotreeBase sys fs, label] @ ''.lck'') 30000
                      (SharedHolotree cfg)
             \<and> result = Inl (Failure ''Could not get lock for %s. Quiting.'') \<and> dk' = dk
             \<and> tr = [EvMkdirAll (StagePath cfg it) True, EvNewRoot (StagePath cfg it) True,
                      EvLoadFrom (CatalogPath cfg (BlueprintHash cfg blueprint)) True,
                      EvLocker (Join [HolotreeBase sys fs, label] @ ''.lck'') 30000
                        (SharedHolotree cfg) False])
       \<or> (\<exists>fs evs. LoadFrom dk (CatalogPath cfg (BlueprintHash cfg blueprint)) = Some fs
             \<and> Locker sys (Join [HolotreeBase sys fs, label] @ ''.lck'') 30000
                    (SharedHolotree cfg)
             \<and> restore_locked cfg sys dk (BlueprintHash cfg blueprint)
                   (CatalogPath cfg (BlueprintHash cfg blueprint)) fs
                   (Join [HolotreeBase sys fs, label]) (Join [HolotreeBase sys fs, label] @ ''.meta'')
                   controller space = (result, dk', evs)
             \<and> tr = [EvMkdirAll (StagePath cfg it) True, EvNewRoot (StagePath cfg it) True,
                      EvLoadFrom (CatalogPath cfg (BlueprintHash cfg blueprint)) True,
                      EvLocker (Join [HolotreeBase sys fs, label] @ ''.lck'') 30000
                        (SharedHolotree cfg) True]
                     @ evs @ [EvRelease (Join [HolotreeBase sys fs, label] @ ''.lck'')])"
  using assms
  by (auto simp: RestoreTo_def Stage_def Let_def split: option.splits if_splits prod.splits)

lemma takeWhile_wrap:
  assumes "\<forall>e\<in>set pre. P e" and "\<exists>e\<in>set evs. \<not> P e"
  shows "takeWhile P (pre @ evs @ post) = pre @ takeWhile P evs"
proof -
  obtain e where "e \<in> set evs" "\<not> P e" using assms(2) by blast
  then have "takeWhile P (evs @ post) = takeWhile P evs" by (rule takeWhile_append1)
  then show ?thesis using assms(1) by (simp add: takeWhile_append2)
qed

text \<open>
  Claim C2: in every run of \<open>RestoreTo\<close>, the meta file \<open><targetdir>.meta\<close> is
  saved only after \<open>MakeBranches\<close> and \<open>RestoreDirectory\<close> have succeeded, and
  after no failed step. If a step before the save fails, \<open>RestoreTo\<close> returns an
  error, never calls \<open>SaveAs\<close>, and leaves the catalog files on disk, the existing
  meta file among them, as they were; every run that returns an error does.
\<close>

theorem RestoreTo_meta_last:
  assumes "RestoreTo cfg sys dk it blueprint label controller space partial = (result, dk', tr)"
  shows "((\<exists>e\<in>set tr. is_save e) \<longrightarrow>
            EvMakeBranches True \<in> set (takeWhile (\<lambda>e. \<not> is_save e) tr)
          \<and> EvRestoreDirectory True \<in> set (takeWhile (\<lambda>e. \<not> is_save e) tr)
          \<and> (\<forall>e\<in>set (takeWhile (\<lambda>e. \<not> is_save e) tr). \<not> failed_step e))
       \<and> ((\<exists>e\<in>set tr. failed_step e) \<longrightarrow> isl result \<and> (\<forall>e\<in>set tr. \<not> is_save e) \<and> dk' = dk)
       \<and> (isl result \<longrightarrow> dk' = dk)
       \<and> (\<forall>mf ok. EvSaveAs mf ok \<in> set tr \<longrightarrow>
             (\<exists>fs. LoadFrom dk (CatalogPath cfg (BlueprintHash cfg blueprint)) = Some fs
                \<and> mf = Join [HolotreeBase sys fs, label] @ ''.meta''))"
  using RestoreTo_shape [OF assms]
proof (elim disjE exE conjE)
  fix fs evs
  let ?key = "BlueprintHash cfg blueprint"
  let ?target = "Join [HolotreeBase sys fs, label]"
  let ?pre = "[EvMkdirAll (StagePath cfg it) True, EvNewRoot (StagePath cfg it) True,
               EvLoadFrom (CatalogPath cfg ?key) True,
               EvLocker (?target @ ''.lck'') 30000 (SharedHolotree cfg) True]"
  let ?P = "\<lambda>e. \<not> is_save e"
  assume load: "LoadFrom dk (CatalogPath cfg ?key) = Some fs"
    and r: "restore_locked cfg sys dk ?key (CatalogPath cfg ?key) fs ?target (?target @ ''.meta'')
              controller space = (result, dk', evs)"
    and tr: "tr = ?pre @ evs @ [EvRelease (?target @ ''.lck'')]"
  have save_in: "(\<exists>e\<in>set tr. is_save e) \<longleftrightarrow> (\<exists>e\<in>set evs. is_save e)"
    unfolding tr by auto
  have fail_in: "(\<exists>e\<in>set tr. failed_step e) \<longleftrightarrow> (\<exists>e\<in>set evs. failed_step e)"
    unfolding tr by auto
  have order: "(\<exists>e\<in>set evs. is_save e) \<longrightarrow>
       EvMakeBranches True \<in> set (takeWhile ?P evs) \<and> EvRestoreDirectory True \<in> set (takeWhile ?P evs)
       \<and> (\<forall>e\<in>set (takeWhile ?P evs). \<not> failed_step e)"
    using restore_locked_save_order [of cfg sys dk ?key "CatalogPath cfg ?key" fs ?target
        "?target @ ''.meta''" controller space] r by simp
  have failed: "(\<exists>e\<in>set evs. failed_step e) \<longrightarrow> isl result \<and> (\<forall>e\<in>set evs. \<not> is_save e)"
    using restore_locked_failed [of cfg sys dk ?key "CatalogPath cfg ?key" fs ?target
        "?target @ ''.meta''" controller space] r by simp
  have disk: "isl result \<longrightarrow> dk' = dk"
    using restore_locked_error_disk [of cfg sys dk ?key "CatalogPath cfg ?key" fs ?target
        "?target @ ''.meta''" controller space] r by simp
  have meta: "\<forall>mf ok. EvSaveAs mf ok \<in> set evs \<longrightarrow> mf = ?target @ ''.meta''"
    using restore_locked_saves_meta [of cfg sys dk ?key "CatalogPath cfg ?key" fs ?target
        "?target @ ''.meta''" controller space] r by simp
  have 1: "(\<exists>e\<in>set tr. is_save e) \<longrightarrow>
            EvMakeBranches True \<in> set (takeWhile ?P tr)
          \<and> EvRestoreDirectory True \<in> set (takeWhile ?P tr)
          \<and> (\<forall>e\<in>set (takeWhile ?P tr). \<not> failed_step e)"
  proof
    assume "\<exists>e\<in>set tr. is_save e"
    then have s: "\<exists>e\<in>set evs. \<not> ?P e" using save_in by simp
    have "takeWhile ?P tr = ?pre @ takeWhile ?P evs"
      unfolding tr by (rule takeWhile_wrap [OF _ s]) simp
    then show "EvMakeBranches True \<in> set (takeWhile ?P tr)
          \<and> EvRestoreDirectory True \<in> set (takeWhile ?P tr)
          \<and> (\<forall>e\<in>set (takeWhile ?P tr). \<not> failed_step e)"
      using order s by auto
  qed
  have 2: "(\<exists>e\<in>set tr. failed_step e) \<longrightarrow> isl result \<and> (\<forall>e\<in>set tr. \<not> is_save e) \<and> dk' = dk"
    using failed disk fail_in save_in by blast
  have 4: "\<forall>mf ok. EvSaveAs mf ok \<in> set tr \<longrightarrow>
             (\<exists>fs. LoadFrom dk (CatalogPath cfg ?key) = Some fs
                \<and> mf = Join [HolotreeBase sys fs, label] @ ''.meta'')"
    using meta load unfolding tr by auto
  show ?thesis using 1 2 disk 4 by blast
qed auto



subsection \<open>Evaluating restores on the small installation\<close>

lemma demo_key34: "BlueprintHash demo_config [3, 4] = ''34''"
  by (simp add: demo_config_def hexdigit_def)

lemma demo_catalog_path34:
  "CatalogPath demo_config ''34'' = ''/hololib/catalog/34v12.linux_amd64''"
  by (simp add: CatalogPath_def CatalogName_def HololibCatalogLocation_def Join_def demo_config_def)

lemma demo_shared: "SharedHolotree demo_config = False"
  by (simp add: demo_config_def)

lemma demo_system_calls:
  "NewRoot demo_system p \<noteq> None"
  "HolotreeBase demo_system r = ''/holotree''"
  "MkdirAll demo_system p"
  "Locker demo_system p n s"
  "Relocate demo_system r p = Some (r\<lparr>Path := p\<rparr>)"
  "MakeBranches demo_system r"
  "RestoreDirectory demo_system r cs
     = Some (count_all (map (\<lambda>d. CDirty True) (refs r)) new_stats)"
  "SaveAs demo_system r p"
  by (simp_all add: demo_system_def)

lemma demo_no_branches_calls:
  "NewRoot demo_system_no_branches p \<noteq> None"
  "HolotreeBase demo_system_no_branches r = ''/holotree''"
  "MkdirAll demo_system_no_branches p"
  "Locker demo_system_no_branches p n s"
  "Relocate demo_system_no_branches r p = Some (r\<lparr>Path := p\<rparr>)"
  "\<not> MakeBranches demo_system_no_branches r"
  by (simp_all add: demo_system_no_branches_def demo_system_def)


lemma demo_export_disk_load:
  "LoadFrom demo_export_disk ''/hololib/catalog/12v12.linux_amd64'' = Some demo_K1"
  "LoadFrom demo_export_disk ''/hololib/catalog/34v12.linux_amd64'' = Some demo_K2"
  "LoadFrom demo_export_disk ''/holotree/lbl.meta'' = None"
  by (simp_all add: LoadFrom_def demo_export_disk_def)

lemma demo_target: "Join [''/holotree'', ''lbl''] = ''/holotree/lbl''"
  by (simp add: Join_def)

lemma refs_updates [simp]:
  "refs (r\<lparr>Path := p\<rparr>) = refs r"
  by (simp add: refs_def)

lemma demo_refs:
  "refs demo_K1 = [''0a0b0c01'', ''0a0b0c02'', ''0a0b0c03'']"
  "refs demo_K2 = [''0a0b0c02'', ''0a0b0c03'', ''0a0b0c04'']"
  by (simp_all add: refs_def demo_K1_def demo_K2_def)

lemma demo_score:
  "Dirtyness (count_all [CDirty True, CDirty True, CDirty True] new_stats) = Some 100"
  by (simp add: count_all_def Dirty_def new_stats_def Dirtyness_def Let_def)

lemmas demo_restore_simps =
  RestoreTo_def Stage_def restore_locked_def load_shadow_def operating_mode_def Let_def
  demo_key demo_key34 demo_catalog_path demo_catalog_path34 demo_shared demo_target demo_refs
  demo_score

lemma demo_restore_first:
  "snd (snd (RestoreTo demo_config demo_system demo_export_disk demo_lib [1, 2]
               ''lbl'' ''c'' ''s'' False))
     = [EvMkdirAll (StagePath demo_config demo_lib) True,
        EvNewRoot (StagePath demo_config demo_lib) True,
        EvLoadFrom ''/hololib/catalog/12v12.linux_amd64'' True,
        EvLocker ''/holotree/lbl.lck'' 30000 False True,
        EvShadowRoot ''/holotree/lbl'' True,
        EvLoadMeta ''/holotree/lbl.meta'' False,
        EvMode (''new space for '' @ quoted ''12''),
        EvRelocate ''/holotree/lbl'' True, EvMakeBranches True, EvRestoreDirectory True,
        EvDirtyness True, EvSaveAs ''/holotree/lbl.meta'' True,
        EvTouchWhen ''/hololib/catalog/12v12.linux_amd64'', EvTouchUsedHash ''12'',
        EvRelease ''/holotree/lbl.lck'']"
  using demo_system_calls(1) [of "StagePath demo_config demo_lib"]
    demo_system_calls(1) [of "''/holotree/lbl''"]
  by (auto simp: demo_restore_simps demo_system_calls(2-) demo_export_disk_load)

lemma demo_restored_disk_eq:
  "demo_restored_disk
     = saved demo_export_disk ''/holotree/lbl.meta''
         (demo_K1\<lparr>Path := ''/holotree/lbl'', Controller := ''c'', Space := ''s''\<rparr>)"
  unfolding demo_restored_disk_def
  using demo_system_calls(1) [of "StagePath demo_config demo_lib"]
    demo_system_calls(1) [of "''/holotree/lbl''"]
  by (auto simp: demo_restore_simps demo_system_calls(2-) demo_export_disk_load)

lemma demo_restored_disk_load:
  "LoadFrom demo_restored_disk ''/hololib/catalog/12v12.linux_amd64'' = Some demo_K1"
  "LoadFrom demo_restored_disk ''/hololib/catalog/34v12.linux_amd64'' = Some demo_K2"
  "LoadFrom demo_restored_disk ''/holotree/lbl.meta''
     = Some (demo_K1\<lparr>Path := ''/holotree/lbl'', Controller := ''c'', Space := ''s''\<rparr>)"
  unfolding demo_restored_disk_eq by (simp_all add: LoadFrom_def saved_def demo_export_disk_def)

lemma demo_blueprints [simp]:
  "Blueprint (demo_K1\<lparr>Path := p, Controller := c, Space := s\<rparr>) = ''12''"
  by (simp add: demo_K1_def)

lemma load_shadow_result:
  "fst (load_shadow sys dk targetdir metafile)
     = (if NewRoot sys targetdir = None then None else LoadFrom dk metafile)"
  by (simp add: load_shadow_def split: option.split)

lemma restore_locked_mode:
  "modes (snd (snd (restore_locked cfg sys dk key catalog fs targetdir metafile controller space)))
     = [operating_mode key (fst (load_shadow sys dk targetdir metafile))]"
  by (simp add: restore_locked_def load_shadow_def modes_def Let_def split: option.split)

text \<open>
  The operating mode of a restore that holds the lock: new space when the shadow root or
  the meta file does not load, cleaned up space when the loaded meta has the requested
  blueprint key, and the third mode, spelt \<open>coverted\<close> in the code, when the keys
  differ.
\<close>

lemma RestoreTo_operating_mode:
  assumes "RestoreTo cfg sys dk it blueprint label controller space partial = (result, dk', tr)"
    and "\<exists>lf. EvLocker lf 30000 (SharedHolotree cfg) True \<in> set tr"
  shows "\<exists>fs. LoadFrom dk (CatalogPath cfg (BlueprintHash cfg blueprint)) = Some fs
           \<and> modes tr =
               [case (if NewRoot sys (Join [HolotreeBase sys fs, label]) = None then None
                      else LoadFrom dk (Join [HolotreeBase sys fs, label] @ ''.meta'')) of
                  None \<Rightarrow> ''new space for '' @ quoted (BlueprintHash cfg blueprint)
                | Some shadow \<Rightarrow>
                    if BlueprintHash cfg blueprint = Blueprint shadow
                    then ''cleaned up space for '' @ quoted (BlueprintHash cfg blueprint)
                    else ''coverted space from '' @ quoted (Blueprint shadow) @ '' to ''
                           @ quoted (BlueprintHash cfg blueprint)]"
  using RestoreTo_shape [OF assms(1)]
proof (elim disjE exE conjE)
  fix fs evs
  let ?key = "BlueprintHash cfg blueprint"
  let ?target = "Join [HolotreeBase sys fs, label]"
  assume load: "LoadFrom dk (CatalogPath cfg ?key) = Some fs"
    and r: "restore_locked cfg sys dk ?key (CatalogPath cfg ?key) fs ?target (?target @ ''.meta'')
              controller space = (result, dk', evs)"
    and tr: "tr = [EvMkdirAll (StagePath cfg it) True, EvNewRoot (StagePath cfg it) True,
                   EvLoadFrom (CatalogPath cfg ?key) True,
                   EvLocker (?target @ ''.lck'') 30000 (SharedHolotree cfg) True]
                  @ evs @ [EvRelease (?target @ ''.lck'')]"
  have "modes evs = [operating_mode ?key (fst (load_shadow sys dk ?target (?target @ ''.meta'')))]"
    using restore_locked_mode [of cfg sys dk ?key "CatalogPath cfg ?key" fs ?target
        "?target @ ''.meta''" controller space] r by simp
  then have "modes tr
      = [operating_mode ?key (fst (load_shadow sys dk ?target (?target @ ''.meta'')))]"
    unfolding tr by (simp add: modes_def)
  then show ?thesis
    using load unfolding load_shadow_result operating_mode_def by blast
qed (use assms(2) in auto)

text \<open>
  Claim C5, evaluated on the code: a first restore of blueprint key \<open>12\<close> into a
  target reports \<open>new space\<close>, a second restore of the same blueprint into the same
  target reports \<open>cleaned up space\<close>, and a restore of blueprint key \<open>34\<close> into that
  target reports a mode that starts with \<open>coverted space\<close>, not with
  \<open>converted space\<close>.
\<close>

theorem RestoreTo_mode_strings:
  "modes (snd (snd (RestoreTo demo_config demo_system demo_export_disk demo_lib [1, 2]
                      ''lbl'' ''c'' ''s'' False)))
     = [''new space for '' @ quoted ''12'']
   \<and> modes (snd (snd (RestoreTo demo_config demo_system demo_restored_disk demo_lib [1, 2]
                      ''lbl'' ''c'' ''s'' False)))
     = [''cleaned up space for '' @ quoted ''12'']
   \<and> modes (snd (snd (RestoreTo demo_config demo_system demo_restored_disk demo_lib [3, 4]
                      ''lbl'' ''c'' ''s'' False)))
     = [''coverted space from '' @ quoted ''12'' @ '' to '' @ quoted ''34'']
   \<and> take 15 (''coverted space from '' @ quoted ''12'' @ '' to '' @ quoted ''34'')
     \<noteq> ''converted space''"
  using demo_system_calls(1) [of "StagePath demo_config demo_lib"]
    demo_system_calls(1) [of "''/holotree/lbl''"]
  by (auto simp: demo_restore_simps demo_system_calls(2-) demo_export_disk_load
        demo_restored_disk_load modes_def)

lemma demo_restore_no_branches:
  "snd (snd (RestoreTo demo_config demo_system_no_branches demo_export_disk demo_lib [1, 2]
               ''lbl'' ''c'' ''s'' False))
     = [EvMkdirAll (StagePath demo_config demo_lib) True,
        EvNewRoot (StagePath demo_config demo_lib) True,
        EvLoadFrom ''/hololib/catalog/12v12.linux_amd64'' True,
        EvLocker ''/holotree/lbl.lck'' 30000 False True,
        EvShadowRoot ''/holotree/lbl'' True,
        EvLoadMeta ''/holotree/lbl.meta'' False,
        EvMode (''new space for '' @ quoted ''12''),
        EvRelocate ''/holotree/lbl'' True, EvMakeBranches False,
        EvRelease ''/holotree/lbl.lck'']"
  using demo_no_branches_calls(1) [of "StagePath demo_config demo_lib"]
    demo_no_branches_calls(1) [of "''/holotree/lbl''"]
  by (auto simp: demo_restore_simps demo_no_branches_calls(2-) demo_export_disk_load)


lemma run_collapse: "f = (fst f, fst (snd f), snd (snd f))"
  by simp

theorem RestoreTo_meta_last_witness:
  "EvMakeBranches True \<in> set (takeWhile (\<lambda>e. \<not> is_save e)
        (snd (snd (RestoreTo demo_config demo_system demo_export_disk demo_lib [1, 2]
                     ''lbl'' ''c'' ''s'' False))))
   \<and> EvRestoreDirectory True \<in> set (takeWhile (\<lambda>e. \<not> is_save e)
        (snd (snd (RestoreTo demo_config demo_system demo_export_disk demo_lib [1, 2]
                     ''lbl'' ''c'' ''s'' False))))
   \<and> isl (fst (RestoreTo demo_config demo_system_no_branches demo_export_disk demo_lib
                  [1, 2] ''lbl'' ''c'' ''s'' False))
   \<and> \<not> (\<exists>e\<in>set (snd (snd (RestoreTo demo_config demo_system_no_branches demo_export_disk
                              demo_lib [1, 2] ''lbl'' ''c'' ''s'' False))). is_save e)
   \<and> fst (snd (RestoreTo demo_config demo_system_no_branches demo_export_disk demo_lib
                  [1, 2] ''lbl'' ''c'' ''s'' False)) = demo_export_disk"
proof -
  have 1: "\<exists>e\<in>set (snd (snd (RestoreTo demo_config demo_system demo_export_disk demo_lib [1, 2]
                     ''lbl'' ''c'' ''s'' False))). is_save e"
    unfolding demo_restore_first by simp
  have 2: "\<exists>e\<in>set (snd (snd (RestoreTo demo_config demo_system_no_branches demo_export_disk
                     demo_lib [1, 2] ''lbl'' ''c'' ''s'' False))). failed_step e"
    unfolding demo_restore_no_branches by simp
  show ?thesis
    using 1 2 RestoreTo_meta_last [OF run_collapse, of demo_config demo_system demo_export_disk
        demo_lib "[1, 2]" "''lbl''" "''c''" "''s''" False]
      RestoreTo_meta_last [OF run_collapse, of demo_config demo_system_no_branches
        demo_export_disk demo_lib "[1, 2]" "''lbl''" "''c''" "''s''" False]
    by blast
qed


end
